theory Spec2Isabelle
  imports Complex_Main "HOL-Library.Sublist"
begin

section \<open>Values exchanged with the outside world\<close>

text \<open>
  The program is \<^verbatim>\<open>src/reachinbox-onebox/src/server.ts\<close>. Every call it awaits on an
  external service (Elasticsearch, the Gemini endpoint, the two webhooks, the mail
  parser) either returns or throws; a thrown JavaScript exception is a value of type
  \<open>error\<close>, and a function that may throw returns \<open>error + 'a\<close> with \<open>Inl\<close> the
  exception.
\<close>

datatype error = Error string

text \<open>
  The value \<^verbatim>\<open>response.json()\<close> yields: any JSON document. An object keeps its
  members in the order of the text; on a repeated key \<^verbatim>\<open>JSON.parse\<close> keeps the last.
\<close>

datatype json =
    JNull
  | JBool bool
  | JNum rat
  | JStr string
  | JArr "json list"
  | JObj "(string \<times> json) list"

text \<open>JavaScript truthiness of a parsed JSON value (the test \<^verbatim>\<open>data && ...\<close>).\<close>

fun truthy :: "json \<Rightarrow> bool" where
  "truthy JNull = False"
| "truthy (JBool b) = b"
| "truthy (JNum n) = (n \<noteq> 0)"
| "truthy (JStr s) = (s \<noteq> [])"
| "truthy (JArr xs) = True"
| "truthy (JObj kvs) = True"

text \<open>
  The property read \<^verbatim>\<open>data.category\<close> on a truthy value: an object member, or
  \<^verbatim>\<open>undefined\<close> (\<open>None\<close>) when the object has none or the value is a boolean,
  number, string or array.
\<close>

fun category_of :: "json \<Rightarrow> json option" where
  "category_of (JObj kvs) = map_of (rev kvs) ''category''"
| "category_of v = None"

section \<open>The data model\<close>

text \<open>
  \<^verbatim>\<open>interface EmailDocument\<close>; \<^verbatim>\<open>aiCategory?\<close> is optional, \<^verbatim>\<open>date\<close> is a
  \<^verbatim>\<open>Date\<close>, kept as milliseconds since the epoch.
\<close>

record EmailDocument =
  subject :: string
  body :: string
  accountId :: string
  folder :: string
  date :: int
  aiCategory :: "string option"
  sender :: string
  uid :: string

text \<open>
  The calls the program issues to its collaborators, in the order it issues them. A call
  is recorded when it is made, whether it then returns or throws.
\<close>

datatype event =
    EsIndex string EmailDocument
  | EsRefresh
  | GeminiPost string
  | EsUpdate string string
  | SlackPost string
  | WebhookPost EmailDocument

text \<open>
  The state the pipeline acts on: the documents of the Elasticsearch index
  \<^verbatim>\<open>emails\<close> by \<^verbatim>\<open>_id\<close>, the documents visible to a search (those present at
  the last refresh of the index), and the calls issued so far.
\<close>

record world =
  docs :: "string \<rightharpoonup> EmailDocument"
  searchable :: "string \<rightharpoonup> EmailDocument"
  trace :: "event list"

definition emit :: "event \<Rightarrow> world \<Rightarrow> world" where
  "emit ev w = w\<lparr>trace := trace w @ [ev]\<rparr>"

text \<open>The calls issued between an earlier state and a later one.\<close>

definition new_events :: "world \<Rightarrow> world \<Rightarrow> event list" where
  "new_events w w' = drop (length (trace w)) (trace w')"

section \<open>The pipeline stages\<close>

text \<open>
  \<^verbatim>\<open>indexEmail\<close>: \<^verbatim>\<open>elasticClient.index({index, id: email.uid, body: email})\<close>
  stores the whole document under its id, replacing a document already there; then
  \<^verbatim>\<open>indices.refresh\<close> makes the index searchable. \<open>oi\<close> and \<open>orf\<close> say whether the
  two calls throw; a call that throws leaves the index as it was.
\<close>

definition indexEmail ::
  "error option \<Rightarrow> error option \<Rightarrow> EmailDocument \<Rightarrow> world \<Rightarrow> (error + unit) \<times> world" where
  "indexEmail oi orf email w =
     (let w1 = emit (EsIndex (uid email) email) w in
      case oi of
        Some err \<Rightarrow> (Inl err, w1)
      | None \<Rightarrow>
          (let w2 = emit EsRefresh (w1\<lparr>docs := (docs w1)(uid email \<mapsto> email)\<rparr>) in
           case orf of
             Some err \<Rightarrow> (Inl err, w2)
           | None \<Rightarrow> (Inr (), w2\<lparr>searchable := docs w2\<rparr>)))"

text \<open>What the classifier call does: \<^verbatim>\<open>fetch\<close> throws, or \<^verbatim>\<open>response.json()\<close>
  throws, or the response parses to a JSON value.\<close>

datatype classify_outcome =
    FetchThrows error
  | JsonThrows error
  | Data json

definition validCategories :: "string list" where
  "validCategories =
     [''Interested'', ''Meeting Booked'', ''Not Interested'', ''Spam'', ''Out of Office'']"

text \<open>The test of line 94 and the value returned.\<close>

definition pick_category :: "json \<Rightarrow> string" where
  "pick_category d =
     (if truthy d then
        (case category_of d of
           Some (JStr c) \<Rightarrow> if c \<in> set validCategories then c else ''Not Interested''
         | _ \<Rightarrow> ''Not Interested'')
      else ''Not Interested'')"

definition classifyEmail ::
  "classify_outcome \<Rightarrow> string \<Rightarrow> world \<Rightarrow> (error + string) \<times> world" where
  "classifyEmail oc emailText w =
     (let w1 = emit (GeminiPost emailText) w in
      case oc of
        FetchThrows err \<Rightarrow> (Inl err, w1)
      | JsonThrows err \<Rightarrow> (Inl err, w1)
      | Data d \<Rightarrow> (Inr (pick_category d), w1))"

text \<open>
  \<^verbatim>\<open>updateEmailCategory\<close>: \<^verbatim>\<open>elasticClient.update({id: uid, doc: {aiCategory}})\<close>
  merges the one field into the stored document and throws when there is no document
  with that id; then the index is refreshed.
\<close>

definition updateEmailCategory ::
  "error option \<Rightarrow> error option \<Rightarrow> string \<Rightarrow> string \<Rightarrow> world \<Rightarrow> (error + unit) \<times> world" where
  "updateEmailCategory ou orf uid' category w =
     (let w1 = emit (EsUpdate uid' category) w in
      case ou of
        Some err \<Rightarrow> (Inl err, w1)
      | None \<Rightarrow>
          (case docs w1 uid' of
             None \<Rightarrow> (Inl (Error ''document_missing_exception''), w1)
           | Some d \<Rightarrow>
               (let w2 = emit EsRefresh
                      (w1\<lparr>docs := (docs w1)(uid' \<mapsto> d\<lparr>aiCategory := Some category\<rparr>)\<rparr>) in
                case orf of
                  Some err \<Rightarrow> (Inl err, w2)
                | None \<Rightarrow> (Inr (), w2\<lparr>searchable := docs w2\<rparr>))))"

text \<open>The text of the Slack message (a template literal with two line breaks).\<close>

definition slack_text :: "EmailDocument \<Rightarrow> string" where
  "slack_text email =
     ''*Interested Email*'' @ [CHR 0x0A] @ ''Subject: '' @ subject email @ [CHR 0x0A] @
     ''From: '' @ sender email"

text \<open>\<^verbatim>\<open>triggerWebhooks\<close>: the guard of line 117, then the two posts, each awaited.\<close>

definition triggerWebhooks ::
  "error option \<Rightarrow> error option \<Rightarrow> EmailDocument \<Rightarrow> world \<Rightarrow> (error + unit) \<times> world" where
  "triggerWebhooks os ow email w =
     (if aiCategory email \<noteq> Some ''Interested'' then (Inr (), w)
      else
        (let w1 = emit (SlackPost (slack_text email)) w in
         case os of
           Some err \<Rightarrow> (Inl err, w1)
         | None \<Rightarrow>
             (let w2 = emit (WebhookPost email) w1 in
              case ow of
                Some err \<Rightarrow> (Inl err, w2)
              | None \<Rightarrow> (Inr (), w2))))"

text \<open>What each external call of one pipeline run does.\<close>

record outcomes =
  o_index :: "error option"
  o_refresh1 :: "error option"
  o_classify :: classify_outcome
  o_update :: "error option"
  o_refresh2 :: "error option"
  o_slack :: "error option"
  o_webhook :: "error option"

text \<open>
  \<^verbatim>\<open>processNewEmail\<close>: four awaited calls in a row with no \<^verbatim>\<open>try\<close>; an exception
  of any of them leaves the function at once. The assignment
  \<^verbatim>\<open>emailData.aiCategory = category\<close> changes the object handed to
  \<^verbatim>\<open>triggerWebhooks\<close>, not the document already sent to the index.
\<close>

definition processNewEmail :: "outcomes \<Rightarrow> EmailDocument \<Rightarrow> world \<Rightarrow> (error + unit) \<times> world" where
  "processNewEmail out emailData w =
     (case indexEmail (o_index out) (o_refresh1 out) emailData w of
        (Inl err, w1) \<Rightarrow> (Inl err, w1)
      | (Inr u, w1) \<Rightarrow>
          (case classifyEmail (o_classify out) (body emailData) w1 of
             (Inl err, w2) \<Rightarrow> (Inl err, w2)
           | (Inr category, w2) \<Rightarrow>
               (case updateEmailCategory (o_update out) (o_refresh2 out) (uid emailData) category w2 of
                  (Inl err, w3) \<Rightarrow> (Inl err, w3)
                | (Inr u', w3) \<Rightarrow>
                    triggerWebhooks (o_slack out) (o_webhook out)
                      (emailData\<lparr>aiCategory := Some category\<rparr>) w3)))"

section \<open>The new-mail handler\<close>

text \<open>\<^verbatim>\<open>attrs.uid.toString()\<close>: a UID is a positive integer, printed in decimal.\<close>

fun string_of_nat :: "nat \<Rightarrow> string" where
  "string_of_nat n =
     (if n < 10 then [''0123456789'' ! n]
      else string_of_nat (n div 10) @ [''0123456789'' ! (n mod 10)])"

declare string_of_nat.simps [simp del]

text \<open>The fields of the parsed mail the handler reads; each may be \<^verbatim>\<open>undefined\<close>.\<close>

record parsed_mail =
  p_subject :: "string option"
  p_text :: "string option"
  p_date :: "int option"
  p_from :: "string option"

text \<open>
  One message of a fetch: the UID among its attributes (\<open>None\<close> when the
  \<^verbatim>\<open>attributes\<close> variable is still unassigned when the handler reads it) and what
  \<^verbatim>\<open>simpleParser\<close> does with its body.
\<close>

record message =
  m_uid :: "nat option"
  m_parsed :: "error + parsed_mail"

text \<open>\<^verbatim>\<open>x || ''\<close> on an optional string.\<close>

definition or_empty :: "string option \<Rightarrow> string" where
  "or_empty x = (case x of None \<Rightarrow> [] | Some s \<Rightarrow> s)"

text \<open>
  The record the handler builds (lines 221 to 229): no \<^verbatim>\<open>aiCategory\<close>, the mailbox
  user as account, and the UID of the attributes as identifier. \<open>now\<close> is
  \<^verbatim>\<open>new Date()\<close>.
\<close>

definition emailDoc :: "string \<Rightarrow> int \<Rightarrow> parsed_mail \<Rightarrow> nat \<Rightarrow> EmailDocument" where
  "emailDoc user now parsed n =
     \<lparr>subject = or_empty (p_subject parsed),
      body = or_empty (p_text parsed),
      accountId = user,
      folder = ''INBOX'',
      date = (case p_date parsed of None \<Rightarrow> now | Some d \<Rightarrow> d),
      aiCategory = None,
      sender = or_empty (p_from parsed),
      uid = string_of_nat n\<rparr>"

text \<open>
  The body handler of one message (lines 218 to 234): everything is inside one
  \<^verbatim>\<open>try\<close>, whose \<^verbatim>\<open>catch\<close> logs the exception. So the handler never throws, and an
  exception of the parser, of the read of \<^verbatim>\<open>attributes.uid\<close> or of the pipeline ends
  the work on this message where it stands.
\<close>

definition onBody :: "string \<Rightarrow> int \<Rightarrow> outcomes \<Rightarrow> message \<Rightarrow> world \<Rightarrow> world" where
  "onBody user now out msg w =
     (case m_parsed msg of
        Inl err \<Rightarrow> w
      | Inr parsed \<Rightarrow>
          (case m_uid msg of
             None \<Rightarrow> w
           | Some n \<Rightarrow> snd (processNewEmail out (emailDoc user now parsed n) w)))"

text \<open>
  The \<^verbatim>\<open>mail\<close> listener (lines 210 to 236): \<^verbatim>\<open>imap.seq.fetch('1:*', ...)\<close> asks for
  the sequence numbers from 1 to the last one, that is for every message of the
  mailbox, whatever \<^verbatim>\<open>numNewMsgs\<close> is (it is only logged). The program starts one
  body handler per message and awaits none of them; \<open>onMail\<close> is the schedule in which
  each handler ends before the next starts, in sequence order (the other schedules are
  those of \<open>interleave\<close> below). \<open>outs\<close> gives, by sequence number, what the external
  calls of that message's pipeline run do.
\<close>

definition onMail ::
  "string \<Rightarrow> int \<Rightarrow> (nat \<Rightarrow> outcomes) \<Rightarrow> nat \<Rightarrow> message list \<Rightarrow> world \<Rightarrow> world" where
  "onMail user now outs numNewMsgs mailbox w =
     foldl (\<lambda>w' (seqno, msg). onBody user now (outs seqno) msg w') w (enumerate 1 mailbox)"

section \<open>Runs in progress at the same time\<close>

text \<open>
  The body handlers are not awaited (line 218), and every \<^verbatim>\<open>mail\<close> event fetches the
  whole mailbox, so several runs of \<^verbatim>\<open>processNewEmail\<close> can be in progress at once,
  also for one identifier. A run gives way at each \<^verbatim>\<open>await\<close>; here a run advances by
  one external call at a time, and the calls of different runs alternate in any order.
  \<open>pc\<close> is the call a run issues next; after the classifier's answer it carries the
  label.
\<close>

datatype pc =
    AtIndex
  | AtRefresh1
  | AtClassify
  | AtUpdate string
  | AtRefresh2 string
  | AtSlack
  | AtWebhook
  | Ended

record task =
  t_out :: outcomes
  t_doc :: EmailDocument
  t_pc :: pc

text \<open>
  One call of a run, with the effect of \<^verbatim>\<open>indexEmail\<close>, \<^verbatim>\<open>classifyEmail\<close>,
  \<^verbatim>\<open>updateEmailCategory\<close> and \<^verbatim>\<open>triggerWebhooks\<close> at that call; the request to
  the classifier and the reading of its answer count as one call. A call that throws ends
  the run (the exception reaches the handler's \<^verbatim>\<open>catch\<close>).
\<close>

definition step_task :: "task \<Rightarrow> world \<Rightarrow> task \<times> world" where
  "step_task t w =
     (let out = t_out t; e = t_doc t; e' = e\<lparr>aiCategory := Some ''Interested''\<rparr> in
      case t_pc t of
        AtIndex \<Rightarrow>
          (let w1 = emit (EsIndex (uid e) e) w in
           case o_index out of
             Some err \<Rightarrow> (t\<lparr>t_pc := Ended\<rparr>, w1)
           | None \<Rightarrow> (t\<lparr>t_pc := AtRefresh1\<rparr>, w1\<lparr>docs := (docs w1)(uid e \<mapsto> e)\<rparr>))
      | AtRefresh1 \<Rightarrow>
          (let w1 = emit EsRefresh w in
           case o_refresh1 out of
             Some err \<Rightarrow> (t\<lparr>t_pc := Ended\<rparr>, w1)
           | None \<Rightarrow> (t\<lparr>t_pc := AtClassify\<rparr>, w1\<lparr>searchable := docs w1\<rparr>))
      | AtClassify \<Rightarrow>
          (let w1 = emit (GeminiPost (body e)) w in
           case o_classify out of
             FetchThrows err \<Rightarrow> (t\<lparr>t_pc := Ended\<rparr>, w1)
           | JsonThrows err \<Rightarrow> (t\<lparr>t_pc := Ended\<rparr>, w1)
           | Data d \<Rightarrow> (t\<lparr>t_pc := AtUpdate (pick_category d)\<rparr>, w1))
      | AtUpdate c \<Rightarrow>
          (let w1 = emit (EsUpdate (uid e) c) w in
           case o_update out of
             Some err \<Rightarrow> (t\<lparr>t_pc := Ended\<rparr>, w1)
           | None \<Rightarrow>
               (case docs w1 (uid e) of
                  None \<Rightarrow> (t\<lparr>t_pc := Ended\<rparr>, w1)
                | Some d \<Rightarrow>
                    (t\<lparr>t_pc := AtRefresh2 c\<rparr>,
                     w1\<lparr>docs := (docs w1)(uid e \<mapsto> d\<lparr>aiCategory := Some c\<rparr>)\<rparr>)))
      | AtRefresh2 c \<Rightarrow>
          (let w1 = emit EsRefresh w in
           case o_refresh2 out of
             Some err \<Rightarrow> (t\<lparr>t_pc := Ended\<rparr>, w1)
           | None \<Rightarrow>
               (t\<lparr>t_pc := (if c \<noteq> ''Interested'' then Ended else AtSlack)\<rparr>,
                w1\<lparr>searchable := docs w1\<rparr>))
      | AtSlack \<Rightarrow>
          (let w1 = emit (SlackPost (slack_text e')) w in
           case o_slack out of
             Some err \<Rightarrow> (t\<lparr>t_pc := Ended\<rparr>, w1)
           | None \<Rightarrow> (t\<lparr>t_pc := AtWebhook\<rparr>, w1))
      | AtWebhook \<Rightarrow> (t\<lparr>t_pc := Ended\<rparr>, emit (WebhookPost e') w)
      | Ended \<Rightarrow> (t, w))"

text \<open>A run of the pipeline that has not issued a call yet.\<close>

definition start_task :: "outcomes \<Rightarrow> EmailDocument \<Rightarrow> task" where
  "start_task out e = \<lparr>t_out = out, t_doc = e, t_pc = AtIndex\<rparr>"

text \<open>
  A schedule names, call after call, the run that advances (by its position in the list
  of runs); a position where no run stands is skipped.
\<close>

fun interleave :: "nat list \<Rightarrow> task list \<Rightarrow> world \<Rightarrow> task list \<times> world" where
  "interleave [] ts w = (ts, w)"
| "interleave (i # sched) ts w =
     (if i < length ts
      then (case step_task (ts ! i) w of (t', w') \<Rightarrow> interleave sched (ts[i := t']) w')
      else interleave sched ts w)"

section \<open>The session: listeners and the watchdog\<close>

text \<open>Line 168: the period handed to \<^verbatim>\<open>setInterval\<close>, in milliseconds.\<close>

definition watchdog_period_ms :: nat where
  "watchdog_period_ms = 29 * 60 * 1000"

text \<open>Which of the two methods the IMAP object has (the \<^verbatim>\<open>typeof\<close> tests).\<close>

record imap_caps =
  has_idle :: bool
  has_noop :: bool

text \<open>What the session does that can be seen from outside.\<close>

datatype action =
    Connect
  | SeqFetch string
  | FetchDone
  | CallIdle
  | CallNoop
  | Log string

text \<open>The body of the interval callback (lines 158 to 167).\<close>

definition watchdog_tick :: "imap_caps \<Rightarrow> action list" where
  "watchdog_tick caps =
     (if has_idle caps then [CallIdle, Log ''Sent IDLE command to keep IMAP connection alive'']
      else if has_noop caps then [CallNoop, Log ''Sent NOOP command to keep IMAP connection alive'']
      else [Log ''No IDLE/NOOP method available to keep IMAP connection alive''])"

text \<open>
  What the event loop hands to the program: the \<^verbatim>\<open>ready\<close> event followed by the
  answer of \<^verbatim>\<open>openBox\<close>, a \<^verbatim>\<open>mail\<close> event, the end of a running fetch, a tick of the
  interval timer, and the \<^verbatim>\<open>error\<close> and \<^verbatim>\<open>end\<close> events of the connection.
\<close>

datatype callback =
    Ready "error option"
  | MailArrived nat
  | FetchEnded
  | TimerFired
  | ImapError error
  | ImapEnd

text \<open>
  The listeners registered at a moment. \<^verbatim>\<open>once\<close> listeners are removed when they
  run; the \<^verbatim>\<open>mail\<close> listener and the interval timer exist from the successful
  \<^verbatim>\<open>openBox\<close> on. \<open>crashed\<close>: an exception nobody handles has ended the process
  (the \<^verbatim>\<open>throw err\<close> of line 173, which rejects the promise of the callback, or an
  \<^verbatim>\<open>error\<close> event with no listener left).
\<close>

record session =
  ready_once :: bool
  error_once :: bool
  end_once :: bool
  mail_listener :: bool
  watchdog :: bool
  crashed :: bool
  actions :: "action list"

text \<open>The module's top level: three \<^verbatim>\<open>once\<close> listeners, then \<^verbatim>\<open>imap.connect()\<close>.\<close>

definition session0 :: session where
  "session0 =
     \<lparr>ready_once = True, error_once = True, end_once = True, mail_listener = False,
      watchdog = False, crashed = False, actions = [Connect]\<rparr>"

definition act :: "action list \<Rightarrow> session \<Rightarrow> session" where
  "act as s = s\<lparr>actions := actions s @ as\<rparr>"

text \<open>
  One callback. The initial search of lines 176 to 207 stores nothing and is left out.
  The \<^verbatim>\<open>error\<close> and \<^verbatim>\<open>end\<close> listeners (lines 242 to 250) log and do nothing else.
\<close>

fun dispatch :: "imap_caps \<Rightarrow> session \<Rightarrow> callback \<Rightarrow> session" where
  "dispatch caps s (Ready oerr) =
     (if crashed s \<or> \<not> ready_once s then s
      else case oerr of
        Some err \<Rightarrow> s\<lparr>ready_once := False, crashed := True\<rparr>
      | None \<Rightarrow> s\<lparr>ready_once := False, mail_listener := True, watchdog := True\<rparr>)"
| "dispatch caps s (MailArrived numNewMsgs) =
     (if crashed s \<or> \<not> mail_listener s then s
      else act [Log (''New mail event: '' @ string_of_nat numNewMsgs @ '' msg(s)''),
                SeqFetch ''1:*''] s)"
| "dispatch caps s FetchEnded =
     (if crashed s then s else act [FetchDone] s)"
| "dispatch caps s TimerFired =
     (if crashed s \<or> \<not> watchdog s then s else act (watchdog_tick caps) s)"
| "dispatch caps s (ImapError err) =
     (if crashed s then s
      else if error_once s then act [Log ''IMAP error:''] (s\<lparr>error_once := False\<rparr>)
      else s\<lparr>crashed := True\<rparr>)"
| "dispatch caps s ImapEnd =
     (if crashed s \<or> \<not> end_once s then s
      else act [Log ''IMAP connection ended''] (s\<lparr>end_once := False\<rparr>))"

definition run :: "imap_caps \<Rightarrow> callback list \<Rightarrow> session" where
  "run caps cbs = foldl (dispatch caps) session0 cbs"

text \<open>
  A keep-alive probe is issued while a fetch is in flight: \<open>n\<close> counts the fetches
  started and not yet ended.
\<close>

fun probe_in_flight :: "nat \<Rightarrow> action list \<Rightarrow> bool" where
  "probe_in_flight n [] = False"
| "probe_in_flight n (SeqFetch r # as) = probe_in_flight (Suc n) as"
| "probe_in_flight n (FetchDone # as) = probe_in_flight (n - 1) as"
| "probe_in_flight n (CallIdle # as) = (0 < n \<or> probe_in_flight n as)"
| "probe_in_flight n (CallNoop # as) = (0 < n \<or> probe_in_flight n as)"
| "probe_in_flight n (a # as) = probe_in_flight n as"

section \<open>The search endpoint\<close>

text \<open>
  A value of \<^verbatim>\<open>req.query\<close> as Express parses it: a string, an array or a nested
  object. Arrays and objects are truthy, a string is unless it is empty.
\<close>

datatype qval =
    QStr string
  | QArr "qval list"
  | QObj "(string \<times> qval) list"

fun q_truthy :: "qval \<Rightarrow> bool" where
  "q_truthy (QStr s) = (s \<noteq> [])"
| "q_truthy (QArr xs) = True"
| "q_truthy (QObj kvs) = True"

text \<open>The query parameters the handler reads; each may be absent.\<close>

record search_request =
  req_q :: "qval option"
  req_accountId :: "qval option"
  req_folder :: "qval option"
  req_page :: "qval option"
  req_size :: "qval option"

text \<open>
  A number of the search body, kept as the JavaScript expression that computes it:
  \<^verbatim>\<open>parseInt\<close> of a query value, a literal, a difference, a product. The expression is
  handed to the search as it stands; its value in double arithmetic (\<^verbatim>\<open>NaN\<close>
  included) is not computed here.
\<close>

datatype js_num =
    ParseInt qval
  | NumLit int
  | Minus js_num js_num
  | Times js_num js_num

datatype must_clause = MultiMatch qval "string list" | MatchAll

datatype filter_clause = Term string qval

record es_query =
  q_from :: js_num
  q_size :: js_num
  q_must :: "must_clause list"
  q_filter :: "filter_clause list"

text \<open>
  Lines 261 to 275. The defaults of the destructuring apply to an absent parameter only,
  and the tests on \<^verbatim>\<open>q\<close>, \<^verbatim>\<open>accountId\<close> and \<^verbatim>\<open>folder\<close> are truthiness tests.
\<close>

definition build_query :: "search_request \<Rightarrow> es_query" where
  "build_query req =
     (let q' = (case req_q req of None \<Rightarrow> QStr [] | Some v \<Rightarrow> v);
          page = (case req_page req of None \<Rightarrow> QStr ''1'' | Some v \<Rightarrow> v);
          size' = (case req_size req of None \<Rightarrow> QStr ''20'' | Some v \<Rightarrow> v)
      in \<lparr>q_from = Times (Minus (ParseInt page) (NumLit 1)) (ParseInt size'),
          q_size = ParseInt size',
          q_must = (if q_truthy q' then [MultiMatch q' [''subject'', ''body'']] else [MatchAll]),
          q_filter =
            (case req_accountId req of
               None \<Rightarrow> []
             | Some a \<Rightarrow> if q_truthy a then [Term ''accountId'' a] else []) @
            (case req_folder req of
               None \<Rightarrow> []
             | Some f \<Rightarrow> if q_truthy f then [Term ''folder'' f] else [])\<rparr>)"

record hit =
  hit_id :: string
  hit_source :: json

record response =
  status :: nat
  payload :: json

text \<open>The \<^verbatim>\<open>try\<close> block: the search call, then \<^verbatim>\<open>res.json\<close> of the sources.\<close>

definition search_try ::
  "(es_query \<Rightarrow> error + hit list) \<Rightarrow> search_request \<Rightarrow> error + response" where
  "search_try search req =
     (case search (build_query req) of
        Inl err \<Rightarrow> Inl err
      | Inr hits \<Rightarrow> Inr \<lparr>status = 200, payload = JArr (map hit_source hits)\<rparr>)"

text \<open>The handler: the \<^verbatim>\<open>catch\<close> answers 500 with a fixed body.\<close>

definition search_handler ::
  "(es_query \<Rightarrow> error + hit list) \<Rightarrow> search_request \<Rightarrow> error + response" where
  "search_handler search req =
     (case search_try search req of
        Inl err \<Rightarrow> Inr \<lparr>status = 500, payload = JObj [(''error'', JStr ''Search failed'')]\<rparr>
      | Inr r \<Rightarrow> Inr r)"

section \<open>Vocabulary of the properties\<close>

text \<open>A classifier response names one of the five labels.\<close>

definition names_label :: "json \<Rightarrow> bool" where
  "names_label d =
     (case category_of d of Some (JStr c) \<Rightarrow> c \<in> set validCategories | _ \<Rightarrow> False)"

text \<open>The label a run works with once the classifier has answered.\<close>

definition label_of :: "outcomes \<Rightarrow> string" where
  "label_of out =
     (case o_classify out of Data d \<Rightarrow> pick_category d | _ \<Rightarrow> ''Not Interested'')"

text \<open>The calls to a notification sink.\<close>

fun is_notification :: "event \<Rightarrow> bool" where
  "is_notification (SlackPost t) = True"
| "is_notification (WebhookPost d) = True"
| "is_notification ev = False"



text \<open>The identifiers under which a sequence of calls indexes documents.\<close>

fun indexed_uids :: "event list \<Rightarrow> string list" where
  "indexed_uids [] = []"
| "indexed_uids (EsIndex k d # evs) = k # indexed_uids evs"
| "indexed_uids (ev # evs) = indexed_uids evs"

text \<open>
  The calls of a complete run for a record that receives label \<open>c\<close>, stage by stage:
  Persist (index, refresh), Classify, Annotate (update, refresh), and Notify (Slack,
  then the webhook) when the label is the trigger label.
\<close>

definition pipeline_calls :: "EmailDocument \<Rightarrow> string \<Rightarrow> event list" where
  "pipeline_calls e c =
     [EsIndex (uid e) e, EsRefresh, GeminiPost (body e), EsUpdate (uid e) c, EsRefresh] @
     (if c = ''Interested''
      then [SlackPost (slack_text (e\<lparr>aiCategory := Some c\<rparr>)),
            WebhookPost (e\<lparr>aiCategory := Some c\<rparr>)]
      else [])"

text \<open>The index after Persist, and after Annotate with label \<open>c\<close>.\<close>

definition persisted :: "EmailDocument \<Rightarrow> world \<Rightarrow> world" where
  "persisted e w = w\<lparr>docs := (docs w)(uid e \<mapsto> e), searchable := (docs w)(uid e \<mapsto> e)\<rparr>"

definition annotated :: "EmailDocument \<Rightarrow> string \<Rightarrow> world \<Rightarrow> world" where
  "annotated e c w =
     w\<lparr>docs := (docs w)(uid e \<mapsto> e\<lparr>aiCategory := Some c\<rparr>),
       searchable := (docs w)(uid e \<mapsto> e\<lparr>aiCategory := Some c\<rparr>)\<rparr>"

text \<open>
  The document a run leaves in the index once its index call has gone through, and the
  one it leaves visible to a search once the first refresh has gone through too.
\<close>

definition final_doc :: "outcomes \<Rightarrow> EmailDocument \<Rightarrow> EmailDocument" where
  "final_doc out e =
     (if o_refresh1 out = None \<and> o_update out = None
      then (case o_classify out of
              Data d \<Rightarrow> e\<lparr>aiCategory := Some (pick_category d)\<rparr>
            | _ \<Rightarrow> e)
      else e)"

definition visible_doc :: "outcomes \<Rightarrow> EmailDocument \<Rightarrow> EmailDocument" where
  "visible_doc out e =
     (if o_update out = None \<and> o_refresh2 out = None
      then (case o_classify out of
              Data d \<Rightarrow> e\<lparr>aiCategory := Some (pick_category d)\<rparr>
            | _ \<Rightarrow> e)
      else e)"

text \<open>
  Every call of Persist, Classify and Annotate returns, so that the run gets to the
  Notify stage.
\<close>

definition reaches_notify :: "outcomes \<Rightarrow> bool" where
  "reaches_notify out =
     (o_index out = None \<and> o_refresh1 out = None \<and>
      (case o_classify out of Data d \<Rightarrow> True | _ \<Rightarrow> False) \<and>
      o_update out = None \<and> o_refresh2 out = None)"

text \<open>The document identifiers that a sequence of calls hands to the index.\<close>

fun store_keys :: "event list \<Rightarrow> string list" where
  "store_keys [] = []"
| "store_keys (EsIndex k d # evs) = k # store_keys evs"
| "store_keys (EsUpdate k c # evs) = k # store_keys evs"
| "store_keys (ev # evs) = store_keys evs"

text \<open>The keep-alive probes among the actions of the session.\<close>

fun is_probe :: "action \<Rightarrow> bool" where
  "is_probe CallIdle = True"
| "is_probe CallNoop = True"
| "is_probe a = False"



text \<open>How often \<^verbatim>\<open>imap.connect()\<close> has been called.\<close>

definition connects :: "session \<Rightarrow> nat" where
  "connects s = length (filter (\<lambda>a. a = Connect) (actions s))"

section \<open>Sample inputs\<close>

definition world0 :: world where
  "world0 = \<lparr>docs = Map.empty, searchable = Map.empty, trace = []\<rparr>"

definition mail118 :: EmailDocument where
  "mail118 =
     \<lparr>subject = ''Re: demo'', body = ''Tell me more'', accountId = ''me@example.com'',
      folder = ''INBOX'', date = 0, aiCategory = None, sender = ''lead@example.com'',
      uid = ''118''\<rparr>"

definition mail118_again :: EmailDocument where
  "mail118_again = mail118\<lparr>subject := ''Re: demo (edited)''\<rparr>"

text \<open>Every store and sink call goes through; the classifier does \<open>oc\<close>.\<close>

definition calls_ok :: "classify_outcome \<Rightarrow> outcomes" where
  "calls_ok oc =
     \<lparr>o_index = None, o_refresh1 = None, o_classify = oc, o_update = None,
      o_refresh2 = None, o_slack = None, o_webhook = None\<rparr>"

definition says_interested :: json where
  "says_interested = JObj [(''category'', JStr ''Interested'')]"

definition says_spam :: json where
  "says_spam = JObj [(''category'', JStr ''Spam'')]"

definition says_maybe :: json where
  "says_maybe = JObj [(''category'', JStr ''Maybe'')]"

definition slack_down :: outcomes where
  "slack_down = (calls_ok (Data says_interested))\<lparr>o_slack := Some (Error ''ETIMEDOUT'')\<rparr>"

definition msg116 :: message where
  "msg116 =
     \<lparr>m_uid = Some 116,
      m_parsed = Inr \<lparr>p_subject = Some ''Pricing'', p_text = Some ''Please send a quote'',
                      p_date = Some 1000, p_from = Some ''a@example.com''\<rparr>\<rparr>"

definition msg117 :: message where
  "msg117 =
     \<lparr>m_uid = Some 117,
      m_parsed = Inr \<lparr>p_subject = Some ''Hello'', p_text = Some ''Count me in'',
                      p_date = Some 2000, p_from = Some ''b@example.com''\<rparr>\<rparr>"

definition outs_interested :: "nat \<Rightarrow> outcomes" where
  "outs_interested seqno = calls_ok (Data says_interested)"

text \<open>The state after a first \<^verbatim>\<open>mail\<close> event, with message 116 alone in the mailbox.\<close>

definition after_first_mail :: world where
  "after_first_mail = onMail ''me@example.com'' 0 outs_interested 1 [msg116] world0"

definition caps_idle :: imap_caps where
  "caps_idle = \<lparr>has_idle = True, has_noop = True\<rparr>"

text \<open>
  The client of the program is node-imap's connection object (line 23). It keeps the
  IDLE state by itself and has no method named \<^verbatim>\<open>idle\<close> or \<^verbatim>\<open>noop\<close>.
\<close>

definition caps_node_imap :: imap_caps where
  "caps_node_imap = \<lparr>has_idle = False, has_noop = False\<rparr>"

text \<open>The classifier says Interested and the refresh after the update throws.\<close>

definition refresh2_down :: outcomes where
  "refresh2_down = (calls_ok (Data says_interested))\<lparr>o_refresh2 := Some (Error ''ECONNRESET'')\<rparr>"

text \<open>The index call throws.\<close>

definition index_down :: outcomes where
  "index_down = (calls_ok (Data says_spam))\<lparr>o_index := Some (Error ''ECONNREFUSED'')\<rparr>"

text \<open>
  Two runs on the record of UID 118, for which the classifier says Interested the first
  time and Spam the second, and a schedule in which the second run does all its calls
  between the classifier call and the update of the first.
\<close>

definition two_runs :: "task list" where
  "two_runs =
     [start_task (calls_ok (Data says_interested)) mail118,
      start_task (calls_ok (Data says_spam)) mail118]"

definition overlap :: "nat list" where
  "overlap = [0, 0, 0, 1, 1, 1, 1, 1, 0, 0, 0, 0]"

definition no_params :: search_request where
  "no_params =
     \<lparr>req_q = None, req_accountId = None, req_folder = None, req_page = None, req_size = None\<rparr>"

definition one_hit :: "hit list" where
  "one_hit = [\<lparr>hit_id = ''118'', hit_source = JObj [(''uid'', JStr ''118'')]\<rparr>]"

section \<open>Facts about the stages\<close>

lemmas stage_defs = indexEmail_def classifyEmail_def updateEmailCategory_def
  triggerWebhooks_def emit_def Let_def

lemma new_events_ext [simp]: "new_events w (w'\<lparr>trace := trace w @ t\<rparr>) = t"
  by (simp add: new_events_def)

lemma new_events_ext2 [simp]: "trace w' = trace w @ t \<Longrightarrow> new_events w w' = t"
  by (simp add: new_events_def)


lemma pick_category_default: "\<not> names_label d \<Longrightarrow> pick_category d = ''Not Interested''"
  by (simp add: pick_category_def names_label_def split: option.splits json.splits)


lemma pick_interested: "pick_category says_interested = ''Interested''"
  by (simp add: pick_category_def validCategories_def says_interested_def)

lemma pick_spam: "pick_category says_spam = ''Spam''"
  by (simp add: pick_category_def validCategories_def says_spam_def)

lemma maybe_not_named: "\<not> names_label says_maybe"
  by (simp add: names_label_def validCategories_def says_maybe_def)

lemma trigger_events:
  "new_events w (snd (triggerWebhooks os ow email w)) =
     (if aiCategory email = Some ''Interested''
      then SlackPost (slack_text email) # (if os = None then [WebhookPost email] else [])
      else [])"
  by (simp add: triggerWebhooks_def emit_def Let_def new_events_def split: option.splits)

subsection \<open>One run of the pipeline, by the first call that throws\<close>

lemma run_index_fails:
  "o_index out = Some err \<Longrightarrow>
   processNewEmail out e w = (Inl err, w\<lparr>trace := trace w @ take 1 (pipeline_calls e c)\<rparr>)"
  by (simp add: processNewEmail_def stage_defs pipeline_calls_def)

lemma run_refresh1_fails:
  "o_index out = None \<Longrightarrow> o_refresh1 out = Some err \<Longrightarrow>
   processNewEmail out e w =
     (Inl err, w\<lparr>docs := (docs w)(uid e \<mapsto> e), trace := trace w @ take 2 (pipeline_calls e c)\<rparr>)"
  by (simp add: processNewEmail_def stage_defs pipeline_calls_def)

lemma run_classify_throws:
  "o_index out = None \<Longrightarrow> o_refresh1 out = None \<Longrightarrow>
   o_classify out = FetchThrows err \<or> o_classify out = JsonThrows err \<Longrightarrow>
   processNewEmail out e w =
     (Inl err, (persisted e w)\<lparr>trace := trace w @ take 3 (pipeline_calls e c)\<rparr>)"
  by (auto simp: processNewEmail_def stage_defs pipeline_calls_def persisted_def)

lemma run_update_fails:
  "o_index out = None \<Longrightarrow> o_refresh1 out = None \<Longrightarrow> o_classify out = Data d \<Longrightarrow>
   o_update out = Some err \<Longrightarrow>
   processNewEmail out e w =
     (Inl err, (persisted e w)\<lparr>trace := trace w @ take 4 (pipeline_calls e (pick_category d))\<rparr>)"
  by (simp add: processNewEmail_def stage_defs pipeline_calls_def persisted_def)

lemma run_refresh2_fails:
  "o_index out = None \<Longrightarrow> o_refresh1 out = None \<Longrightarrow> o_classify out = Data d \<Longrightarrow>
   o_update out = None \<Longrightarrow> o_refresh2 out = Some err \<Longrightarrow>
   processNewEmail out e w =
     (Inl err, w\<lparr>docs := (docs w)(uid e \<mapsto> e\<lparr>aiCategory := Some (pick_category d)\<rparr>),
                searchable := (docs w)(uid e \<mapsto> e),
                trace := trace w @ take 5 (pipeline_calls e (pick_category d))\<rparr>)"
  by (simp add: processNewEmail_def stage_defs pipeline_calls_def persisted_def)

lemma run_no_trigger:
  "o_index out = None \<Longrightarrow> o_refresh1 out = None \<Longrightarrow> o_classify out = Data d \<Longrightarrow>
   o_update out = None \<Longrightarrow> o_refresh2 out = None \<Longrightarrow> pick_category d \<noteq> ''Interested'' \<Longrightarrow>
   processNewEmail out e w =
     (Inr (), (annotated e (pick_category d) w)
                \<lparr>trace := trace w @ pipeline_calls e (pick_category d)\<rparr>)"
  by (simp add: processNewEmail_def stage_defs pipeline_calls_def annotated_def)

lemma run_slack_fails:
  "o_index out = None \<Longrightarrow> o_refresh1 out = None \<Longrightarrow> o_classify out = Data d \<Longrightarrow>
   o_update out = None \<Longrightarrow> o_refresh2 out = None \<Longrightarrow> pick_category d = ''Interested'' \<Longrightarrow>
   o_slack out = Some err \<Longrightarrow>
   processNewEmail out e w =
     (Inl err, (annotated e ''Interested'' w)
                 \<lparr>trace := trace w @ take 6 (pipeline_calls e ''Interested'')\<rparr>)"
  by (simp add: processNewEmail_def stage_defs pipeline_calls_def annotated_def)

lemma run_webhook_fails:
  "o_index out = None \<Longrightarrow> o_refresh1 out = None \<Longrightarrow> o_classify out = Data d \<Longrightarrow>
   o_update out = None \<Longrightarrow> o_refresh2 out = None \<Longrightarrow> pick_category d = ''Interested'' \<Longrightarrow>
   o_slack out = None \<Longrightarrow> o_webhook out = Some err \<Longrightarrow>
   processNewEmail out e w =
     (Inl err, (annotated e ''Interested'' w)
                 \<lparr>trace := trace w @ pipeline_calls e ''Interested''\<rparr>)"
  by (simp add: processNewEmail_def stage_defs pipeline_calls_def annotated_def)

lemma run_all_ok:
  "o_index out = None \<Longrightarrow> o_refresh1 out = None \<Longrightarrow> o_classify out = Data d \<Longrightarrow>
   o_update out = None \<Longrightarrow> o_refresh2 out = None \<Longrightarrow> pick_category d = ''Interested'' \<Longrightarrow>
   o_slack out = None \<Longrightarrow> o_webhook out = None \<Longrightarrow>
   processNewEmail out e w =
     (Inr (), (annotated e ''Interested'' w)
                \<lparr>trace := trace w @ pipeline_calls e ''Interested''\<rparr>)"
  by (simp add: processNewEmail_def stage_defs pipeline_calls_def annotated_def)

lemma outcome_cases [case_names index_fails refresh1_fails classify_throws update_fails
    refresh2_fails no_trigger slack_fails webhook_fails all_ok]:
  obtains
    err where "o_index out = Some err"
  | err where "o_index out = None" "o_refresh1 out = Some err"
  | err where "o_index out = None" "o_refresh1 out = None"
      "o_classify out = FetchThrows err \<or> o_classify out = JsonThrows err"
  | d err where "o_index out = None" "o_refresh1 out = None" "o_classify out = Data d"
      "o_update out = Some err"
  | d err where "o_index out = None" "o_refresh1 out = None" "o_classify out = Data d"
      "o_update out = None" "o_refresh2 out = Some err"
  | d where "o_index out = None" "o_refresh1 out = None" "o_classify out = Data d"
      "o_update out = None" "o_refresh2 out = None" "pick_category d \<noteq> ''Interested''"
  | d err where "o_index out = None" "o_refresh1 out = None" "o_classify out = Data d"
      "o_update out = None" "o_refresh2 out = None" "pick_category d = ''Interested''"
      "o_slack out = Some err"
  | d err where "o_index out = None" "o_refresh1 out = None" "o_classify out = Data d"
      "o_update out = None" "o_refresh2 out = None" "pick_category d = ''Interested''"
      "o_slack out = None" "o_webhook out = Some err"
  | d where "o_index out = None" "o_refresh1 out = None" "o_classify out = Data d"
      "o_update out = None" "o_refresh2 out = None" "pick_category d = ''Interested''"
      "o_slack out = None" "o_webhook out = None"
  by (cases "o_index out"; cases "o_refresh1 out"; cases "o_classify out"; cases "o_update out";
      cases "o_refresh2 out"; cases "o_slack out"; cases "o_webhook out") blast+

subsection \<open>What a run leaves in the index\<close>

lemma run_docs_any: "\<exists>x. docs (snd (processNewEmail out e w)) = (docs w)(uid e := x)"
proof (cases out rule: outcome_cases)
  case (index_fails err)
  have "docs w = (docs w)(uid e := docs w (uid e))" by simp
  then have "\<exists>x. docs w = (docs w)(uid e := x)" ..
  with index_fails show ?thesis
    by (simp add: run_index_fails [where c = "label_of out"])
next
  case (refresh1_fails err)
  then show ?thesis
    by (simp add: run_refresh1_fails [where c = "label_of out"]) blast
next
  case (classify_throws err)
  then show ?thesis
    by (auto simp: run_classify_throws [where c = "label_of out"] persisted_def)
next
  case (update_fails d err)
  then show ?thesis by (auto simp: run_update_fails persisted_def)
next
  case (refresh2_fails d err)
  then show ?thesis by (auto simp: run_refresh2_fails)
next
  case (no_trigger d)
  then show ?thesis by (auto simp: run_no_trigger annotated_def)
next
  case (slack_fails d err)
  then show ?thesis by (auto simp: run_slack_fails annotated_def)
next
  case (webhook_fails d err)
  then show ?thesis by (auto simp: run_webhook_fails annotated_def)
next
  case (all_ok d)
  then show ?thesis by (auto simp: run_all_ok annotated_def)
qed

lemma run_result_indep:
  "o_index out = None \<Longrightarrow> fst (processNewEmail out e w) = fst (processNewEmail out e w')"
proof (cases out rule: outcome_cases)
  case (classify_throws err)
  then show ?thesis
    by (simp add: run_classify_throws [where c = "label_of out"])
qed (simp_all add: run_refresh1_fails [where c = "label_of out"] run_update_fails
    run_refresh2_fails run_no_trigger run_slack_fails run_webhook_fails run_all_ok)

lemma run_docs_index_ok:
  "o_index out = None \<Longrightarrow>
   docs (snd (processNewEmail out e w)) = (docs w)(uid e \<mapsto> final_doc out e)"
proof (cases out rule: outcome_cases)
  case (classify_throws err)
  then show ?thesis
    by (auto simp: run_classify_throws [where c = "label_of out"] final_doc_def persisted_def)
qed (simp_all add: run_refresh1_fails [where c = "label_of out"] run_update_fails
    run_refresh2_fails run_no_trigger run_slack_fails run_webhook_fails run_all_ok
    final_doc_def persisted_def annotated_def)

lemma run_searchable_refresh_ok:
  "o_index out = None \<Longrightarrow> o_refresh1 out = None \<Longrightarrow>
   searchable (snd (processNewEmail out e w)) = (docs w)(uid e \<mapsto> visible_doc out e)"
proof (cases out rule: outcome_cases)
  case (classify_throws err)
  then show ?thesis
    by (auto simp: run_classify_throws [where c = "label_of out"] visible_doc_def persisted_def)
qed (simp_all add: run_update_fails
    run_refresh2_fails run_no_trigger run_slack_fails run_webhook_fails run_all_ok
    visible_doc_def persisted_def annotated_def)

lemma run_ok_label:
  assumes "fst (processNewEmail out e w) = Inr ()"
  shows "final_doc out e = e\<lparr>aiCategory := Some (label_of out)\<rparr>"
proof (cases out rule: outcome_cases)
  case (classify_throws err)
  then show ?thesis
    using assms by (simp add: run_classify_throws [where c = "label_of out"])
qed (use assms in \<open>simp_all add: run_index_fails [where c = "label_of out"]
    run_refresh1_fails [where c = "label_of out"] run_update_fails
    run_refresh2_fails run_no_trigger run_slack_fails run_webhook_fails run_all_ok
    final_doc_def label_of_def\<close>)

subsection \<open>Labels written by a run, a message and a mail event\<close>









subsection \<open>The sample messages\<close>

lemma string_of_116: "string_of_nat 116 = ''116''"
  by (simp add: string_of_nat.simps)

lemma string_of_117: "string_of_nat 117 = ''117''"
  by (simp add: string_of_nat.simps)

lemma onBody_all_ok:
  "m_parsed msg = Inr parsed \<Longrightarrow> m_uid msg = Some n \<Longrightarrow>
   onBody user now (outs_interested k) msg w =
     (annotated (emailDoc user now parsed n) ''Interested'' w)
       \<lparr>trace := trace w @ pipeline_calls (emailDoc user now parsed n) ''Interested''\<rparr>"
  by (simp add: onBody_def outs_interested_def run_all_ok [where d = says_interested]
      calls_ok_def pick_interested)

subsection \<open>The session\<close>

lemma dispatch_connects: "connects (dispatch caps s cb) = connects s"
  by (cases cb) (auto simp: connects_def act_def watchdog_tick_def split: option.splits)

lemma foldl_connects: "connects (foldl (dispatch caps) s cbs) = connects s"
  by (induction cbs arbitrary: s) (simp_all add: dispatch_connects)


subsection \<open>The identifiers of the handler\<close>

lemma digit_inj:
  "a < 10 \<Longrightarrow> b < 10 \<Longrightarrow> ''0123456789'' ! a = ''0123456789'' ! b \<Longrightarrow> a = b"
proof -
  assume "a < 10" "b < 10" "''0123456789'' ! a = ''0123456789'' ! b"
  moreover have "distinct ''0123456789''" by simp
  ultimately show ?thesis
    by (simp add: nth_eq_iff_index_eq)
qed

lemma string_of_nat_nonempty: "string_of_nat n \<noteq> []"
  by (subst string_of_nat.simps) simp

lemma string_of_nat_inj: "string_of_nat n = string_of_nat m \<Longrightarrow> n = m"
proof (induction n arbitrary: m rule: string_of_nat.induct)
  case (1 n)
  show ?case
  proof (cases "n < 10")
    case small_n: True
    show ?thesis
    proof (cases "m < 10")
      case True
      with small_n "1.prems" show ?thesis
        by (simp add: string_of_nat.simps [of n] string_of_nat.simps [of m] digit_inj)
    next
      case False
      with small_n "1.prems" string_of_nat_nonempty [of "m div 10"] show ?thesis
        by (simp add: string_of_nat.simps [of n] string_of_nat.simps [of m])
    qed
  next
    case big_n: False
    show ?thesis
    proof (cases "m < 10")
      case True
      with big_n "1.prems" string_of_nat_nonempty [of "n div 10"] show ?thesis
        by (simp add: string_of_nat.simps [of n] string_of_nat.simps [of m])
    next
      case False
      with big_n "1.prems"
      have tens: "string_of_nat (n div 10) = string_of_nat (m div 10)"
        and units: "''0123456789'' ! (n mod 10) = ''0123456789'' ! (m mod 10)"
        by (simp_all add: string_of_nat.simps [of n] string_of_nat.simps [of m])
      from "1.IH" [OF big_n tens] have "n div 10 = m div 10" .
      moreover from units have "n mod 10 = m mod 10"
        by (intro digit_inj) simp_all
      ultimately show ?thesis
        by (metis div_mult_mod_eq)
    qed
  qed
qed

lemma run_store_keys:
  "set (store_keys (new_events w (snd (processNewEmail out e w)))) \<subseteq> {uid e}"
proof (cases out rule: outcome_cases)
  case (classify_throws err)
  then show ?thesis
    by (simp add: run_classify_throws [where c = "label_of out"] pipeline_calls_def)
qed (simp_all add: run_index_fails [where c = "label_of out"]
    run_refresh1_fails [where c = "label_of out"] run_update_fails
    run_refresh2_fails run_no_trigger run_slack_fails run_webhook_fails run_all_ok
    pipeline_calls_def)

lemma onBody_store_keys:
  "set (store_keys (new_events w (onBody user now out msg w))) \<subseteq>
     (case m_uid msg of None \<Rightarrow> {} | Some n \<Rightarrow> {string_of_nat n})"
proof (cases "m_parsed msg")
  case (Inl err)
  then show ?thesis by (simp add: onBody_def new_events_def)
next
  case (Inr parsed)
  show ?thesis
  proof (cases "m_uid msg")
    case None
    with Inr show ?thesis by (simp add: onBody_def new_events_def)
  next
    case (Some n)
    have "uid (emailDoc user now parsed n) = string_of_nat n"
      by (simp add: emailDoc_def)
    with run_store_keys [of w out "emailDoc user now parsed n"] Inr Some show ?thesis
      by (simp add: onBody_def)
  qed
qed

subsection \<open>Runs in progress at the same time\<close>

lemma alone_is_processNewEmail:
  "snd (interleave [0, 0, 0, 0, 0, 0, 0] [start_task out e] w) = snd (processNewEmail out e w)"
proof (cases out rule: outcome_cases)
  case (index_fails err)
  then show ?thesis
    by (simp add: run_index_fails [where c = "label_of out"] step_task_def start_task_def
        emit_def pipeline_calls_def)
next
  case (refresh1_fails err)
  then show ?thesis
    by (simp add: run_refresh1_fails [where c = "label_of out"] step_task_def start_task_def
        emit_def pipeline_calls_def)
next
  case (classify_throws err)
  then show ?thesis
    by (auto simp: run_classify_throws [where c = "label_of out"] step_task_def start_task_def
        emit_def pipeline_calls_def persisted_def)
next
  case (update_fails d err)
  then show ?thesis
    by (simp add: run_update_fails step_task_def start_task_def emit_def pipeline_calls_def
        persisted_def)
next
  case (refresh2_fails d err)
  then show ?thesis
    by (simp add: run_refresh2_fails step_task_def start_task_def emit_def pipeline_calls_def)
next
  case (no_trigger d)
  then show ?thesis
    by (simp add: run_no_trigger step_task_def start_task_def emit_def pipeline_calls_def
        annotated_def)
next
  case (slack_fails d err)
  then show ?thesis
    by (simp add: run_slack_fails step_task_def start_task_def emit_def pipeline_calls_def
        annotated_def)
next
  case (webhook_fails d err)
  then show ?thesis
    by (simp add: run_webhook_fails step_task_def start_task_def emit_def pipeline_calls_def
        annotated_def)
next
  case (all_ok d)
  then show ?thesis
    by (simp add: run_all_ok step_task_def start_task_def emit_def pipeline_calls_def
        annotated_def)
qed

subsection \<open>Probes of the watchdog\<close>

lemma dispatch_no_probe:
  "\<not> has_idle caps \<Longrightarrow> \<not> has_noop caps \<Longrightarrow> filter is_probe (actions s) = [] \<Longrightarrow>
   filter is_probe (actions (dispatch caps s cb)) = []"
  by (cases cb) (auto simp: act_def watchdog_tick_def split: option.splits)

lemma foldl_no_probe:
  "\<not> has_idle caps \<Longrightarrow> \<not> has_noop caps \<Longrightarrow> filter is_probe (actions s) = [] \<Longrightarrow>
   filter is_probe (actions (foldl (dispatch caps) s cbs)) = []"
  by (induction cbs arbitrary: s) (simp_all add: dispatch_no_probe)

lemma no_probe_not_in_flight:
  "filter is_probe as = [] \<Longrightarrow> \<not> probe_in_flight n as"
  by (induction n as rule: probe_in_flight.induct) (simp_all split: if_splits)

lemma tick_during_fetch:
  "has_idle caps \<or> has_noop caps \<Longrightarrow>
   probe_in_flight 0 (actions (run caps [Ready None, MailArrived k, TimerFired]))"
  by (auto simp: run_def session0_def act_def watchdog_tick_def)

subsection \<open>Labels written by runs in progress at the same time\<close>




section \<open>The claims\<close>

subsection \<open>C1: classifier answers outside the label set, classifier failures\<close>




subsection \<open>C2: what a mail event fetches\<close>

text \<open>
  Claim C2 fails on the code. Message 116 has been processed by a first mail event; a
  second event announces one new message, 117. The listener fetches the sequence range
  \<^verbatim>\<open>1:*\<close>, so it indexes 116 again as well as 117 and sends the notifications of both
  (four posts); the number of new messages has no influence on what is fetched.
\<close>

theorem mail_event_reprocesses_old_messages:
  "indexed_uids (trace after_first_mail) = [''116''] \<and>
   indexed_uids (new_events after_first_mail
      (onMail ''me@example.com'' 0 outs_interested 1 [msg116, msg117] after_first_mail))
     = [''116'', ''117''] \<and>
   length (filter is_notification (new_events after_first_mail
      (onMail ''me@example.com'' 0 outs_interested 1 [msg116, msg117] after_first_mail))) = 4 \<and>
   onMail user now outs n mailbox w = onMail user now outs n' mailbox w"
  by (simp add: after_first_mail_def onMail_def
      onBody_all_ok [where parsed = "projr (m_parsed msg116)"]
      onBody_all_ok [where parsed = "projr (m_parsed msg117)"] msg116_def msg117_def
      pipeline_calls_def world0_def emailDoc_def string_of_116 string_of_117 annotated_def
      new_events_def)

subsection \<open>C3: the order of the stages\<close>

text \<open>
  Claim C3. The calls of one run of \<^verbatim>\<open>processNewEmail\<close> are an initial segment of the
  sequence Persist (index, refresh), Classify, Annotate (update, refresh), Notify, and a
  run that completes issues the whole sequence. The classifier is called exactly when the
  index call and its refresh have returned, and then the record is stored and visible to
  a search in the state the classifier call starts from; the update is issued exactly when
  the classifier has answered, and a notification only after update and refresh have
  returned.
\<close>

theorem pipeline_stages_in_order:
  "prefix (new_events w (snd (processNewEmail out e w))) (pipeline_calls e (label_of out)) \<and>
   (fst (processNewEmail out e w) = Inr () \<longrightarrow>
      new_events w (snd (processNewEmail out e w)) = pipeline_calls e (label_of out)) \<and>
   (GeminiPost (body e) \<in> set (new_events w (snd (processNewEmail out e w))) \<longleftrightarrow>
      o_index out = None \<and> o_refresh1 out = None) \<and>
   (o_index out = None \<and> o_refresh1 out = None \<longrightarrow>
      indexEmail (o_index out) (o_refresh1 out) e w =
        (Inr (), w\<lparr>docs := (docs w)(uid e \<mapsto> e), searchable := (docs w)(uid e \<mapsto> e),
                 trace := trace w @ [EsIndex (uid e) e, EsRefresh]\<rparr>)) \<and>
   (EsUpdate (uid e) (label_of out) \<in> set (new_events w (snd (processNewEmail out e w))) \<longleftrightarrow>
      o_index out = None \<and> o_refresh1 out = None \<and> (\<exists>d. o_classify out = Data d)) \<and>
   (filter is_notification (new_events w (snd (processNewEmail out e w))) \<noteq> [] \<longrightarrow>
      o_index out = None \<and> o_refresh1 out = None \<and> (\<exists>d. o_classify out = Data d) \<and>
      o_update out = None \<and> o_refresh2 out = None)"
proof (cases out rule: outcome_cases)
  case (index_fails err)
  then show ?thesis
    by (simp add: run_index_fails [where c = "label_of out"] pipeline_calls_def)
next
  case (refresh1_fails err)
  then show ?thesis
    by (simp add: run_refresh1_fails [where c = "label_of out"] pipeline_calls_def)
next
  case (classify_throws err)
  then show ?thesis
    by (auto simp: run_classify_throws [where c = "label_of out"] pipeline_calls_def
        indexEmail_def emit_def)
next
  case (update_fails d err)
  then show ?thesis
    by (simp add: run_update_fails pipeline_calls_def label_of_def indexEmail_def emit_def)
next
  case (refresh2_fails d err)
  then show ?thesis
    by (simp add: run_refresh2_fails pipeline_calls_def label_of_def indexEmail_def emit_def)
next
  case (no_trigger d)
  then show ?thesis
    by (simp add: run_no_trigger pipeline_calls_def label_of_def indexEmail_def emit_def)
next
  case (slack_fails d err)
  then show ?thesis
    by (simp add: run_slack_fails pipeline_calls_def label_of_def indexEmail_def emit_def)
next
  case (webhook_fails d err)
  then show ?thesis
    by (simp add: run_webhook_fails pipeline_calls_def label_of_def indexEmail_def emit_def)
next
  case (all_ok d)
  then show ?thesis
    by (simp add: run_all_ok pipeline_calls_def label_of_def indexEmail_def emit_def)
qed

theorem pipeline_stages_in_order_witness:
  "fst (processNewEmail (calls_ok (Data says_interested)) mail118 world0) = Inr () \<and>
   new_events world0 (snd (processNewEmail (calls_ok (Data says_interested)) mail118 world0)) =
     pipeline_calls mail118 ''Interested'' \<and>
   GeminiPost ''Tell me more'' \<in>
     set (new_events world0 (snd (processNewEmail (calls_ok (Data says_interested)) mail118 world0))) \<and>
   indexEmail None None mail118 world0 =
     (Inr (), world0\<lparr>docs := (docs world0)(''118'' \<mapsto> mail118),
        searchable := (docs world0)(''118'' \<mapsto> mail118),
        trace := trace world0 @ [EsIndex ''118'' mail118, EsRefresh]\<rparr>)"
proof -
  have uid118: "uid mail118 = ''118''" and body118: "body mail118 = ''Tell me more''"
    by (simp_all add: mail118_def)
  have completes: "fst (processNewEmail (calls_ok (Data says_interested)) mail118 world0) = Inr ()"
    by (simp add: run_all_ok [where d = says_interested] calls_ok_def pick_interested)
  show ?thesis
    using completes pipeline_stages_in_order [of world0 "calls_ok (Data says_interested)" mail118]
    by (simp add: calls_ok_def label_of_def pick_interested uid118 body118 pipeline_calls_def)
qed

subsection \<open>C4: when the Notify stage fires\<close>

text \<open>
  The stored label can be Interested without any notification: the classifier says
  Interested, the update writes the label, and the refresh that follows throws, so the
  run ends before the Notify stage.
\<close>

theorem annotate_failure_suppresses_notification:
  "docs (snd (processNewEmail refresh2_down mail118 world0)) ''118'' =
     Some (mail118\<lparr>aiCategory := Some ''Interested''\<rparr>) \<and>
   filter is_notification (new_events world0 (snd (processNewEmail refresh2_down mail118 world0)))
     = []"
  by (simp add: processNewEmail_def stage_defs refresh2_down_def calls_ok_def world0_def
      mail118_def pick_interested new_events_def)

text \<open>
  Claim C4, amended. A sink is called only for the label Interested.
  \<^verbatim>\<open>triggerWebhooks\<close> posts to Slack, and when that post returns to the webhook, if the
  record it is given carries the label Interested, and calls no sink for any other label,
  the default included. In a run of the pipeline that no other run on the same identifier
  interrupts, a call to a sink implies that the document stored under the identifier
  carries the label Interested. The converse needs the run to get to the Notify stage: the
  Slack post is issued exactly when the label of the run is Interested and every call of
  Persist, Classify and Annotate has returned, the webhook post when the Slack post has
  returned as well, and in a run that gets to the Notify stage the stored label is the
  label of the run. When the refresh of Annotate throws after the update has written the
  label, the label is stored and no sink is called.
\<close>

theorem notify_only_if_interested:
  "new_events w (snd (triggerWebhooks os ow email w)) =
     (if aiCategory email = Some ''Interested''
      then SlackPost (slack_text email) # (if os = None then [WebhookPost email] else [])
      else []) \<and>
   filter is_notification (new_events w (snd (processNewEmail out e w))) =
     (if reaches_notify out \<and> label_of out = ''Interested''
      then SlackPost (slack_text (e\<lparr>aiCategory := Some ''Interested''\<rparr>)) #
           (if o_slack out = None then [WebhookPost (e\<lparr>aiCategory := Some ''Interested''\<rparr>)] else [])
      else []) \<and>
   (filter is_notification (new_events w (snd (processNewEmail out e w))) \<noteq> [] \<longrightarrow>
      docs (snd (processNewEmail out e w)) (uid e) = Some (e\<lparr>aiCategory := Some ''Interested''\<rparr>)) \<and>
   (reaches_notify out \<longrightarrow>
      docs (snd (processNewEmail out e w)) (uid e) = Some (e\<lparr>aiCategory := Some (label_of out)\<rparr>)) \<and>
   (o_index out = None \<and> o_refresh1 out = None \<and> (\<exists>d. o_classify out = Data d) \<and>
    o_update out = None \<and> o_refresh2 out \<noteq> None \<longrightarrow>
      docs (snd (processNewEmail out e w)) (uid e) = Some (e\<lparr>aiCategory := Some (label_of out)\<rparr>) \<and>
      filter is_notification (new_events w (snd (processNewEmail out e w))) = [])"
proof (cases out rule: outcome_cases)
  case (index_fails err)
  then show ?thesis
    by (simp add: trigger_events run_index_fails [where c = "label_of out"] pipeline_calls_def
        reaches_notify_def)
next
  case (refresh1_fails err)
  then show ?thesis
    by (simp add: trigger_events run_refresh1_fails [where c = "label_of out"]
        pipeline_calls_def reaches_notify_def)
next
  case (classify_throws err)
  then show ?thesis
    by (auto simp: trigger_events run_classify_throws [where c = "label_of out"]
        pipeline_calls_def reaches_notify_def)
next
  case (update_fails d err)
  then show ?thesis
    by (simp add: trigger_events run_update_fails pipeline_calls_def reaches_notify_def)
next
  case (refresh2_fails d err)
  then show ?thesis
    by (simp add: trigger_events run_refresh2_fails pipeline_calls_def reaches_notify_def
        label_of_def)
next
  case (no_trigger d)
  then show ?thesis
    by (simp add: trigger_events run_no_trigger pipeline_calls_def annotated_def
        reaches_notify_def label_of_def)
next
  case (slack_fails d err)
  then show ?thesis
    by (simp add: trigger_events run_slack_fails pipeline_calls_def annotated_def
        reaches_notify_def label_of_def)
next
  case (webhook_fails d err)
  then show ?thesis
    by (simp add: trigger_events run_webhook_fails pipeline_calls_def annotated_def
        reaches_notify_def label_of_def)
next
  case (all_ok d)
  then show ?thesis
    by (simp add: trigger_events run_all_ok pipeline_calls_def annotated_def
        reaches_notify_def label_of_def)
qed

theorem notify_only_if_interested_witness:
  "reaches_notify (calls_ok (Data says_interested)) \<and>
   filter is_notification
     (new_events world0 (snd (processNewEmail (calls_ok (Data says_interested)) mail118 world0))) =
     [SlackPost (slack_text (mail118\<lparr>aiCategory := Some ''Interested''\<rparr>)),
      WebhookPost (mail118\<lparr>aiCategory := Some ''Interested''\<rparr>)] \<and>
   docs (snd (processNewEmail (calls_ok (Data says_interested)) mail118 world0)) ''118'' =
     Some (mail118\<lparr>aiCategory := Some ''Interested''\<rparr>) \<and>
   reaches_notify (calls_ok (Data says_maybe)) \<and>
   filter is_notification
     (new_events world0 (snd (processNewEmail (calls_ok (Data says_maybe)) mail118 world0))) = [] \<and>
   docs (snd (processNewEmail (calls_ok (Data says_maybe)) mail118 world0)) ''118'' =
     Some (mail118\<lparr>aiCategory := Some ''Not Interested''\<rparr>) \<and>
   new_events world0
     (snd (triggerWebhooks None None (mail118\<lparr>aiCategory := Some ''Not Interested''\<rparr>) world0)) = [] \<and>
   o_refresh2 refresh2_down \<noteq> None \<and>
   docs (snd (processNewEmail refresh2_down mail118 world0)) (uid mail118) =
     Some (mail118\<lparr>aiCategory := Some (label_of refresh2_down)\<rparr>) \<and>
   filter is_notification (new_events world0 (snd (processNewEmail refresh2_down mail118 world0)))
     = []"
proof -
  have uid118: "uid mail118 = ''118''"
    by (simp add: mail118_def)
  have reach: "reaches_notify (calls_ok (Data says_interested))"
      "reaches_notify (calls_ok (Data says_maybe))"
    by (simp_all add: reaches_notify_def calls_ok_def)
  have labels: "label_of (calls_ok (Data says_interested)) = ''Interested''"
      "label_of (calls_ok (Data says_maybe)) = ''Not Interested''"
    by (simp_all add: label_of_def calls_ok_def pick_interested pick_category_default
        maybe_not_named)
  have slack: "o_slack (calls_ok (Data says_interested)) = None"
    by (simp add: calls_ok_def)
  have down: "o_index refresh2_down = None \<and> o_refresh1 refresh2_down = None \<and>
      (\<exists>d. o_classify refresh2_down = Data d) \<and> o_update refresh2_down = None \<and>
      o_refresh2 refresh2_down \<noteq> None"
    by (simp add: refresh2_down_def calls_ok_def)
  from down
    notify_only_if_interested
      [of world0 None None "mail118\<lparr>aiCategory := Some ''Not Interested''\<rparr>"
        refresh2_down mail118]
  have stored_unsent:
    "docs (snd (processNewEmail refresh2_down mail118 world0)) (uid mail118) =
       Some (mail118\<lparr>aiCategory := Some (label_of refresh2_down)\<rparr>) \<and>
     filter is_notification (new_events world0 (snd (processNewEmail refresh2_down mail118 world0)))
       = []"
    by blast
  have "reaches_notify (calls_ok (Data says_interested)) \<and>
   filter is_notification
     (new_events world0 (snd (processNewEmail (calls_ok (Data says_interested)) mail118 world0))) =
     [SlackPost (slack_text (mail118\<lparr>aiCategory := Some ''Interested''\<rparr>)),
      WebhookPost (mail118\<lparr>aiCategory := Some ''Interested''\<rparr>)] \<and>
   docs (snd (processNewEmail (calls_ok (Data says_interested)) mail118 world0)) ''118'' =
     Some (mail118\<lparr>aiCategory := Some ''Interested''\<rparr>) \<and>
   reaches_notify (calls_ok (Data says_maybe)) \<and>
   filter is_notification
     (new_events world0 (snd (processNewEmail (calls_ok (Data says_maybe)) mail118 world0))) = [] \<and>
   docs (snd (processNewEmail (calls_ok (Data says_maybe)) mail118 world0)) ''118'' =
     Some (mail118\<lparr>aiCategory := Some ''Not Interested''\<rparr>) \<and>
   new_events world0
     (snd (triggerWebhooks None None (mail118\<lparr>aiCategory := Some ''Not Interested''\<rparr>) world0)) = []"
    using reach
      notify_only_if_interested
        [of world0 None None "mail118\<lparr>aiCategory := Some ''Not Interested''\<rparr>"
          "calls_ok (Data says_interested)" mail118]
      notify_only_if_interested
        [of world0 None None "mail118\<lparr>aiCategory := Some ''Not Interested''\<rparr>"
          "calls_ok (Data says_maybe)" mail118]
    by (simp add: labels slack uid118)
  with down stored_unsent show ?thesis
    by blast
qed

subsection \<open>C5: the watchdog\<close>

text \<open>
  With the client of the program, a tick of the watchdog while the session is idle sends
  no keep-alive probe: the callback finds neither \<^verbatim>\<open>idle\<close> nor \<^verbatim>\<open>noop\<close> and writes
  a log line.
\<close>

theorem watchdog_tick_sends_no_probe:
  "actions (run caps_node_imap [Ready None, TimerFired]) =
     [Connect, Log ''No IDLE/NOOP method available to keep IMAP connection alive''] \<and>
   filter is_probe (actions (run caps_node_imap [Ready None, TimerFired])) = []"
  by (simp add: run_def session0_def act_def watchdog_tick_def caps_node_imap_def)

text \<open>
  Claim C5, amended. The watchdog has a fixed period of 29 minutes (1740000 ms). Once it
  is started, every tick of its timer runs the keep-alive callback, whatever the session
  is doing at that moment; nothing suppresses it while a fetch is in flight. The callback
  calls \<^verbatim>\<open>idle()\<close> when the client has such a method, else \<^verbatim>\<open>noop()\<close> when it has
  that one, else it only writes a log line. With a client that has neither method, as the
  program's has, no probe is ever sent, so none is observed during a fetch; with a client
  that has one of them, a tick that arrives during a fetch issues the probe there.
\<close>

theorem watchdog_tick_unconditional:
  "watchdog_period_ms = 1740000 \<and>
   (watchdog s \<and> \<not> crashed s \<longrightarrow>
      actions (dispatch caps s TimerFired) = actions s @ watchdog_tick caps) \<and>
   filter is_probe (watchdog_tick caps) =
     (if has_idle caps then [CallIdle] else if has_noop caps then [CallNoop] else []) \<and>
   (\<not> has_idle caps \<and> \<not> has_noop caps \<longrightarrow>
      watchdog_tick caps = [Log ''No IDLE/NOOP method available to keep IMAP connection alive''] \<and>
      filter is_probe (actions (run caps cbs)) = [] \<and>
      \<not> probe_in_flight 0 (actions (run caps cbs))) \<and>
   (has_idle caps \<or> has_noop caps \<longrightarrow>
      probe_in_flight 0 (actions (run caps [Ready None, MailArrived k, TimerFired])))"
proof -
  have "\<not> has_idle caps \<and> \<not> has_noop caps \<longrightarrow> filter is_probe (actions (run caps cbs)) = []"
    by (simp add: run_def foldl_no_probe session0_def)
  then show ?thesis
    by (simp add: watchdog_period_ms_def act_def watchdog_tick_def no_probe_not_in_flight
        tick_during_fetch)
qed

theorem watchdog_tick_unconditional_witness:
  "watchdog (run caps_node_imap [Ready None, MailArrived 1]) \<and>
   \<not> crashed (run caps_node_imap [Ready None, MailArrived 1]) \<and>
   actions (dispatch caps_node_imap (run caps_node_imap [Ready None, MailArrived 1]) TimerFired) =
     actions (run caps_node_imap [Ready None, MailArrived 1]) @ watchdog_tick caps_node_imap \<and>
   \<not> has_idle caps_node_imap \<and> \<not> has_noop caps_node_imap \<and>
   \<not> probe_in_flight 0
       (actions (run caps_node_imap [Ready None, MailArrived 1, TimerFired, FetchEnded])) \<and>
   has_idle caps_idle \<and>
   probe_in_flight 0 (actions (run caps_idle [Ready None, MailArrived 1, TimerFired]))"
proof -
  have started: "watchdog (run caps_node_imap [Ready None, MailArrived 1])"
    and alive: "\<not> crashed (run caps_node_imap [Ready None, MailArrived 1])"
    by (simp_all add: run_def session0_def act_def)
  have bare: "\<not> has_idle caps_node_imap" "\<not> has_noop caps_node_imap"
    by (simp_all add: caps_node_imap_def)
  have idle: "has_idle caps_idle"
    by (simp add: caps_idle_def)
  note bare_client = watchdog_tick_unconditional
      [of "run caps_node_imap [Ready None, MailArrived 1]" caps_node_imap
        "[Ready None, MailArrived 1, TimerFired, FetchEnded]" 1]
  note idle_client = watchdog_tick_unconditional
      [of "run caps_node_imap [Ready None, MailArrived 1]" caps_idle
        "[Ready None, MailArrived 1, TimerFired, FetchEnded]" 1]
  from bare_client started alive
  have tick: "actions (dispatch caps_node_imap (run caps_node_imap [Ready None, MailArrived 1])
        TimerFired) =
      actions (run caps_node_imap [Ready None, MailArrived 1]) @ watchdog_tick caps_node_imap"
    by blast
  from bare_client bare
  have quiet: "\<not> probe_in_flight 0
      (actions (run caps_node_imap [Ready None, MailArrived 1, TimerFired, FetchEnded]))"
    by blast
  from idle_client idle
  have loud: "probe_in_flight 0 (actions (run caps_idle [Ready None, MailArrived 1, TimerFired]))"
    by blast
  from started alive bare idle tick quiet loud show ?thesis
    by blast
qed

subsection \<open>C6: connection errors\<close>

text \<open>
  After a connection error the session does not reconnect: every action of this run
  after the one \<^verbatim>\<open>connect()\<close> of the start is a log line or a keep-alive call.
\<close>

theorem connection_error_no_reconnect:
  "actions (run caps_idle [Ready None, ImapError (Error ''ECONNRESET''), TimerFired, ImapEnd]) =
     [Connect, Log ''IMAP error:'', CallIdle,
      Log ''Sent IDLE command to keep IMAP connection alive'', Log ''IMAP connection ended'']"
  by (simp add: run_def session0_def act_def watchdog_tick_def caps_idle_def)

text \<open>
  Claim C6, amended. On a network error or a close by the server the session only logs
  the event: there is no reconnecting state, no backoff wait, and \<^verbatim>\<open>connect()\<close> is
  called once, at the start, whatever happens afterwards.
\<close>

theorem connect_only_at_startup:
  "connects (run caps cbs) = 1 \<and>
   (\<not> crashed s \<and> error_once s \<longrightarrow>
      actions (dispatch caps s (ImapError err)) = actions s @ [Log ''IMAP error:'']) \<and>
   (\<not> crashed s \<and> end_once s \<longrightarrow>
      actions (dispatch caps s ImapEnd) = actions s @ [Log ''IMAP connection ended''])"
  by (simp add: run_def foldl_connects act_def) (simp add: connects_def session0_def)

theorem connect_only_at_startup_witness:
  "\<not> crashed (run caps_idle [Ready None]) \<and>
   error_once (run caps_idle [Ready None]) \<and>
   end_once (run caps_idle [Ready None]) \<and>
   connects (run caps_idle [ImapError (Error ''ECONNRESET''), ImapEnd]) = 1 \<and>
   actions (dispatch caps_idle (run caps_idle [Ready None]) (ImapError (Error ''ECONNRESET''))) =
     actions (run caps_idle [Ready None]) @ [Log ''IMAP error:''] \<and>
   actions (dispatch caps_idle (run caps_idle [Ready None]) ImapEnd) =
     actions (run caps_idle [Ready None]) @ [Log ''IMAP connection ended'']"
proof -
  have alive: "\<not> crashed (run caps_idle [Ready None])"
    and armed: "error_once (run caps_idle [Ready None])" "end_once (run caps_idle [Ready None])"
    by (simp_all add: run_def session0_def)
  show ?thesis
    using alive armed
      connect_only_at_startup [of caps_idle "[ImapError (Error ''ECONNRESET''), ImapEnd]"
        "run caps_idle [Ready None]" "Error ''ECONNRESET''"]
    by simp
qed

subsection \<open>C7: processing a record twice\<close>

text \<open>
  Processing the record of UID 118 twice is not idempotent in general. When the index
  call of the second run throws, the index keeps the document and label of the first run,
  while the second run alone leaves nothing under the identifier. And when the calls of
  the two runs alternate (the second run, for which the classifier says Spam, between the
  classifier call and the update of the first, for which it says Interested), both runs
  end, and the index holds the record with the label of the first run, not the result of
  the second run alone.
\<close>

theorem reprocessing_not_idempotent:
  "docs (snd (processNewEmail index_down mail118
            (snd (processNewEmail (calls_ok (Data says_interested)) mail118 world0)))) ''118'' =
     Some (mail118\<lparr>aiCategory := Some ''Interested''\<rparr>) \<and>
   docs (snd (processNewEmail index_down mail118 world0)) ''118'' = None \<and>
   map t_pc (fst (interleave overlap two_runs world0)) = [Ended, Ended] \<and>
   docs (snd (interleave overlap two_runs world0)) ''118'' =
     Some (mail118\<lparr>aiCategory := Some ''Interested''\<rparr>) \<and>
   docs (snd (processNewEmail (calls_ok (Data says_spam)) mail118 world0)) ''118'' =
     Some (mail118\<lparr>aiCategory := Some ''Spam''\<rparr>)"
proof -
  have first:
    "docs (snd (processNewEmail index_down mail118
              (snd (processNewEmail (calls_ok (Data says_interested)) mail118 world0)))) ''118'' =
       Some (mail118\<lparr>aiCategory := Some ''Interested''\<rparr>)"
    by (simp add: run_index_fails [where c = "''Spam''" and err = "Error ''ECONNREFUSED''"]
        run_all_ok [where d = says_interested] index_down_def calls_ok_def pick_interested
        annotated_def mail118_def)
  have alone_fails: "docs (snd (processNewEmail index_down mail118 world0)) ''118'' = None"
    by (simp add: run_index_fails [where c = "''Spam''" and err = "Error ''ECONNREFUSED''"]
        index_down_def calls_ok_def world0_def)
  have mixed: "map t_pc (fst (interleave overlap two_runs world0)) = [Ended, Ended]"
      "docs (snd (interleave overlap two_runs world0)) ''118'' =
         Some (mail118\<lparr>aiCategory := Some ''Interested''\<rparr>)"
    by (simp_all add: overlap_def two_runs_def start_task_def step_task_def emit_def Let_def
        calls_ok_def pick_interested pick_spam mail118_again_def mail118_def world0_def)
  have alone: "docs (snd (processNewEmail (calls_ok (Data says_spam)) mail118 world0)) ''118'' =
      Some (mail118\<lparr>aiCategory := Some ''Spam''\<rparr>)"
    by (simp add: run_no_trigger [where d = says_spam] calls_ok_def pick_spam annotated_def
        mail118_again_def mail118_def)
  from first alone_fails mixed alone show ?thesis
    by simp
qed

text \<open>
  Claim C7, amended. Two records with the same unique identifier are processed one after
  the other, the second run starting when the first has ended, and the index call of the
  second run goes through. Then the index holds the same documents as after the second
  run alone, the second run ends the same way, and (when its first refresh goes through)
  the same documents are visible to a search. When the second run completes, the stored
  document is the second record with the label of the second run: the last write wins on
  the label. The document is stored under the record's \<^verbatim>\<open>uid\<close> and keeps it; every
  call a body handler makes to the index uses as key the decimal form of the UID in the
  message attributes, and different UIDs give different keys.
\<close>

theorem reprocessing_idempotent:
  assumes "uid e1 = uid e2" and "o_index out2 = None"
  shows "docs (snd (processNewEmail out2 e2 (snd (processNewEmail out1 e1 w)))) =
           docs (snd (processNewEmail out2 e2 w)) \<and>
         fst (processNewEmail out2 e2 (snd (processNewEmail out1 e1 w))) =
           fst (processNewEmail out2 e2 w) \<and>
         (o_refresh1 out2 = None \<longrightarrow>
            searchable (snd (processNewEmail out2 e2 (snd (processNewEmail out1 e1 w)))) =
              searchable (snd (processNewEmail out2 e2 w))) \<and>
         (fst (processNewEmail out2 e2 w) = Inr () \<longrightarrow>
            docs (snd (processNewEmail out2 e2 (snd (processNewEmail out1 e1 w)))) (uid e2) =
              Some (e2\<lparr>aiCategory := Some (label_of out2)\<rparr>)) \<and>
         map_option uid
           (docs (snd (processNewEmail out2 e2 (snd (processNewEmail out1 e1 w)))) (uid e2))
           = Some (uid e2) \<and>
         set (store_keys (new_events w (onBody user now out msg w))) \<subseteq>
           (case m_uid msg of None \<Rightarrow> {} | Some k \<Rightarrow> {string_of_nat k}) \<and>
         (string_of_nat n = string_of_nat m \<longleftrightarrow> n = m)"
proof -
  obtain x where x: "docs (snd (processNewEmail out1 e1 w)) = (docs w)(uid e2 := x)"
    using run_docs_any [of out1 e1 w] assms(1) by auto
  have "uid (final_doc out2 e2) = uid e2"
    by (simp add: final_doc_def split: classify_outcome.splits)
  moreover have "string_of_nat n = string_of_nat m \<longleftrightarrow> n = m"
    using string_of_nat_inj by blast
  ultimately show ?thesis
    using assms(2) x onBody_store_keys [of w user now out msg]
    by (simp add: run_docs_index_ok run_searchable_refresh_ok run_ok_label
        run_result_indep [of out2 e2 "snd (processNewEmail out1 e1 w)" w])
qed

theorem reprocessing_idempotent_witness:
  "uid mail118 = uid mail118_again \<and>
   o_index (calls_ok (Data says_spam)) = None \<and>
   o_refresh1 (calls_ok (Data says_spam)) = None \<and>
   fst (processNewEmail (calls_ok (Data says_spam)) mail118_again world0) = Inr () \<and>
   docs (snd (processNewEmail (calls_ok (Data says_spam)) mail118_again
          (snd (processNewEmail (calls_ok (Data says_interested)) mail118 world0)))) =
     docs (snd (processNewEmail (calls_ok (Data says_spam)) mail118_again world0)) \<and>
   searchable (snd (processNewEmail (calls_ok (Data says_spam)) mail118_again
          (snd (processNewEmail (calls_ok (Data says_interested)) mail118 world0)))) =
     searchable (snd (processNewEmail (calls_ok (Data says_spam)) mail118_again world0)) \<and>
   docs (snd (processNewEmail (calls_ok (Data says_spam)) mail118_again
          (snd (processNewEmail (calls_ok (Data says_interested)) mail118 world0)))) ''118'' =
     Some (mail118_again\<lparr>aiCategory := Some ''Spam''\<rparr>) \<and>
   set (store_keys (new_events world0
          (onBody ''me@example.com'' 0 (calls_ok (Data says_spam)) msg116 world0))) \<subseteq> {''116''} \<and>
   string_of_nat 116 \<noteq> string_of_nat 117"
proof -
  have same: "uid mail118 = uid mail118_again" and uid118: "uid mail118_again = ''118''"
    by (simp_all add: mail118_again_def mail118_def)
  have ok: "o_index (calls_ok (Data says_spam)) = None"
    and ok': "o_refresh1 (calls_ok (Data says_spam)) = None"
    by (simp_all add: calls_ok_def)
  have completes: "fst (processNewEmail (calls_ok (Data says_spam)) mail118_again world0) = Inr ()"
    by (simp add: run_no_trigger [where d = says_spam] calls_ok_def pick_spam)
  have label: "label_of (calls_ok (Data says_spam)) = ''Spam''"
    by (simp add: label_of_def calls_ok_def pick_spam)
  have attrs: "m_uid msg116 = Some 116"
    by (simp add: msg116_def)
  show ?thesis
    using same ok ok' completes
      reprocessing_idempotent [OF same ok, of "calls_ok (Data says_interested)" world0
        "''me@example.com''" 0 "calls_ok (Data says_spam)" msg116 116 117]
    by (auto simp: label uid118 attrs string_of_116)
qed

subsection \<open>C8: the labels written to the index\<close>



subsection \<open>C9: the search endpoint\<close>

text \<open>
  Claim C9. When the store search throws, the handler of \<^verbatim>\<open>/api/emails/search\<close>
  answers with status 500 and the body \<^verbatim>\<open>{"error": "Search failed"}\<close>; when the search
  returns, it answers (status 200) with the array of the hits' \<^verbatim>\<open>_source\<close> fields. In
  both cases the handler returns a response: no exception leaves it.
\<close>

theorem search_handler_responses:
  "(\<forall>err. search (build_query req) = Inl err \<longrightarrow>
      search_handler search req =
        Inr \<lparr>status = 500, payload = JObj [(''error'', JStr ''Search failed'')]\<rparr>) \<and>
   (\<forall>hits. search (build_query req) = Inr hits \<longrightarrow>
      search_handler search req =
        Inr \<lparr>status = 200, payload = JArr (map hit_source hits)\<rparr>) \<and>
   (\<exists>r. search_handler search req = Inr r)"
  by (auto simp: search_handler_def search_try_def split: sum.splits)

theorem search_handler_responses_witness:
  "search_handler (\<lambda>query. Inl (Error ''ConnectionError'')) no_params =
     Inr \<lparr>status = 500, payload = JObj [(''error'', JStr ''Search failed'')]\<rparr> \<and>
   search_handler (\<lambda>query. Inr one_hit) no_params =
     Inr \<lparr>status = 200, payload = JArr [JObj [(''uid'', JStr ''118'')]]\<rparr>"
  using search_handler_responses
      [of "\<lambda>query. Inl (Error ''ConnectionError'')" no_params]
    search_handler_responses [of "\<lambda>query. Inr one_hit" no_params]
  by (simp add: one_hit_def)

subsection \<open>C10: a failing Slack call\<close>

text \<open>
  Claim C10. For a record labelled Interested the Notify stage posts to Slack first and
  to the generic webhook second. When the Slack post throws, the webhook post is not
  issued and the exception leaves \<^verbatim>\<open>triggerWebhooks\<close>, and through it
  \<^verbatim>\<open>processNewEmail\<close>: the only call to a sink in that run is the Slack post.
\<close>

theorem slack_failure_skips_webhook:
  assumes "aiCategory email = Some ''Interested''"
  shows "(os = None \<longrightarrow>
            new_events w (snd (triggerWebhooks os ow email w)) =
              [SlackPost (slack_text email), WebhookPost email]) \<and>
         (\<forall>err. os = Some err \<longrightarrow>
            triggerWebhooks os ow email w = (Inl err, emit (SlackPost (slack_text email)) w) \<and>
            new_events w (snd (triggerWebhooks os ow email w)) = [SlackPost (slack_text email)]) \<and>
         (\<forall>err d. o_index out = None \<and> o_refresh1 out = None \<and> o_classify out = Data d \<and>
            o_update out = None \<and> o_refresh2 out = None \<and> pick_category d = ''Interested'' \<and>
            o_slack out = Some err \<longrightarrow>
            fst (processNewEmail out e w) = Inl err \<and>
            filter is_notification (new_events w (snd (processNewEmail out e w))) =
              [SlackPost (slack_text (e\<lparr>aiCategory := Some ''Interested''\<rparr>))])"
  using assms
  by (auto simp: trigger_events run_slack_fails pipeline_calls_def)
    (simp_all add: triggerWebhooks_def emit_def)

theorem slack_failure_skips_webhook_witness:
  "aiCategory (mail118\<lparr>aiCategory := Some ''Interested''\<rparr>) = Some ''Interested'' \<and>
   new_events world0
     (snd (triggerWebhooks None None (mail118\<lparr>aiCategory := Some ''Interested''\<rparr>) world0)) =
     [SlackPost (slack_text (mail118\<lparr>aiCategory := Some ''Interested''\<rparr>)),
      WebhookPost (mail118\<lparr>aiCategory := Some ''Interested''\<rparr>)] \<and>
   triggerWebhooks (Some (Error ''ETIMEDOUT'')) None
       (mail118\<lparr>aiCategory := Some ''Interested''\<rparr>) world0 =
     (Inl (Error ''ETIMEDOUT''),
      emit (SlackPost (slack_text (mail118\<lparr>aiCategory := Some ''Interested''\<rparr>))) world0) \<and>
   fst (processNewEmail slack_down mail118 world0) = Inl (Error ''ETIMEDOUT'') \<and>
   filter is_notification (new_events world0 (snd (processNewEmail slack_down mail118 world0))) =
     [SlackPost (slack_text (mail118\<lparr>aiCategory := Some ''Interested''\<rparr>))]"
proof -
  have lab: "aiCategory (mail118\<lparr>aiCategory := Some ''Interested''\<rparr>) = Some ''Interested''"
    by simp
  show ?thesis
    using slack_failure_skips_webhook
        [OF lab, of None world0 None slack_down mail118]
      slack_failure_skips_webhook
        [OF lab, of "Some (Error ''ETIMEDOUT'')" world0 None slack_down mail118]
    by (simp add: slack_down_def calls_ok_def pick_interested)
qed

end
